theory Spec2Isabelle
  imports Complex_Main "HOL-Library.Word"
begin

section \<open>Turn-taking state machine (backend/turn_taking.py)\<close>

text \<open>
  The controller reads the wall clock (\<^verbatim>\<open>time.time()\<close>) inside its methods.  The
  embedding makes every clock reading an explicit argument \<open>now\<close>, a \<^typ>\<open>real\<close>
  number of seconds; where one method reads the clock once, the model takes one reading.
  Python's unbounded \<^verbatim>\<open>int\<close> is \<^typ>\<open>int\<close>.  Log calls have no effect on the
  state and are left out.
\<close>

datatype TurnState =
    IDLE
  | USER_SPEAKING
  | USER_PAUSING
  | PROCESSING
  | AGENT_SPEAKING
  | AGENT_INTERRUPTED
  | HANDOFF_PENDING

record TurnContext =
  state :: TurnState
  user_speech_start :: "real option"
  agent_speech_start :: "real option"
  last_voice_activity :: real
  interruption_count :: int
  consecutive_silences :: int
  current_audio_buffer_size :: int
  total_user_speaking_time :: real
  total_agent_speaking_time :: real

text \<open>
  \<^verbatim>\<open>TurnContext()\<close>: the defaults of the dataclass; \<^verbatim>\<open>last_voice_activity\<close> is the
  clock reading at construction.
\<close>

definition new_context :: "real \<Rightarrow> TurnContext" where
  "new_context now =
     \<lparr> state = IDLE,
       user_speech_start = None,
       agent_speech_start = None,
       last_voice_activity = now,
       interruption_count = 0,
       consecutive_silences = 0,
       current_audio_buffer_size = 0,
       total_user_speaking_time = 0,
       total_agent_speaking_time = 0 \<rparr>"

text \<open>The thresholds set in \<^verbatim>\<open>__init__\<close>; no code of the repository assigns them again.\<close>

definition PAUSE_THRESHOLD_MS :: int where "PAUSE_THRESHOLD_MS = 800"
definition SILENCE_THRESHOLD_MS :: int where "SILENCE_THRESHOLD_MS = 1500"
definition BARGE_IN_THRESHOLD_MS :: int where "BARGE_IN_THRESHOLD_MS = 200"
definition MIN_SPEECH_DURATION_MS :: int where "MIN_SPEECH_DURATION_MS = 300"
definition MAX_INTERRUPTIONS :: int where "MAX_INTERRUPTIONS = 3"

text \<open>The attribute \<^verbatim>\<open>self.context\<close> is the field \<open>turn_context\<close>.\<close>

record TurnTakingController =
  turn_context :: TurnContext
  adaptive_silence_threshold :: int

definition new_controller :: "real \<Rightarrow> TurnTakingController" where
  "new_controller now =
     \<lparr> turn_context = new_context now,
       adaptive_silence_threshold = SILENCE_THRESHOLD_MS \<rparr>"

text \<open>
  Python truth value of an \<^verbatim>\<open>Optional[float]\<close>: \<^verbatim>\<open>None\<close> and \<^verbatim>\<open>0.0\<close> are false.
\<close>

definition truthy :: "real option \<Rightarrow> bool" where
  "truthy t = (case t of None \<Rightarrow> False | Some x \<Rightarrow> x \<noteq> 0)"

text \<open>
  \<^verbatim>\<open>_change_state\<close>: the callback \<^verbatim>\<open>on_state_change\<close> is \<^verbatim>\<open>None\<close> after
  \<^verbatim>\<open>__init__\<close> and is never set in the repository, so only the assignment remains.
\<close>

definition change_state :: "TurnState \<Rightarrow> TurnTakingController \<Rightarrow> TurnTakingController" where
  "change_state new_state c = c\<lparr>turn_context := (turn_context c)\<lparr>state := new_state\<rparr>\<rparr>"

text \<open>
  \<^verbatim>\<open>on_voice_detected(rms_energy, audio_chunk_size)\<close>.  The three unconditional
  assignments come first; then the branch on the state.  The returned \<^verbatim>\<open>TurnState\<close>
  is the state of the returned controller in every branch.
\<close>

definition on_voice_detected ::
  "real \<Rightarrow> int \<Rightarrow> int \<Rightarrow> TurnTakingController \<Rightarrow> TurnTakingController" where
  "on_voice_detected now rms_energy audio_chunk_size c =
     (let ctx = turn_context c;
          ctx1 = ctx\<lparr>last_voice_activity := now,
                     consecutive_silences := 0,
                     current_audio_buffer_size := current_audio_buffer_size ctx + audio_chunk_size\<rparr>;
          c1 = c\<lparr>turn_context := ctx1\<rparr>
      in if state ctx1 = AGENT_SPEAKING then
           (let c2 = change_state AGENT_INTERRUPTED c1;
                ctx2 = turn_context c2;
                ctx3 = ctx2\<lparr>interruption_count := interruption_count ctx2 + 1\<rparr>;
                ctx4 = (if truthy (agent_speech_start ctx3)
                        then ctx3\<lparr>total_agent_speaking_time :=
                                    total_agent_speaking_time ctx3 + (now - the (agent_speech_start ctx3))\<rparr>
                        else ctx3)
            in c2\<lparr>turn_context := ctx4\<rparr>)
         else if state ctx1 = IDLE \<or> state ctx1 = USER_PAUSING then
           (let ctx2 = (if state ctx1 = IDLE
                        then ctx1\<lparr>user_speech_start := Some now,
                                  current_audio_buffer_size := audio_chunk_size\<rparr>
                        else ctx1)
            in change_state USER_SPEAKING (c1\<lparr>turn_context := ctx2\<rparr>))
         else if state ctx1 = PROCESSING then
           change_state USER_SPEAKING c1
         else c1)"

text \<open>
  \<^verbatim>\<open>on_silence_detected(silence_duration_ms)\<close>.  The clock is read only inside the
  guard on \<^verbatim>\<open>user_speech_start\<close>.
\<close>

definition on_silence_detected ::
  "real \<Rightarrow> int \<Rightarrow> TurnTakingController \<Rightarrow> TurnTakingController" where
  "on_silence_detected now silence_duration_ms c =
     (let ctx = turn_context c;
          ctx1 = ctx\<lparr>consecutive_silences := consecutive_silences ctx + 1\<rparr>;
          c1 = c\<lparr>turn_context := ctx1\<rparr>
      in if state ctx1 = USER_SPEAKING then
           (if silence_duration_ms > adaptive_silence_threshold c1 then
              (let c2 = (if truthy (user_speech_start ctx1) then
                           (let speaking_time = now - the (user_speech_start ctx1);
                                ctx2 = ctx1\<lparr>total_user_speaking_time :=
                                             total_user_speaking_time ctx1 + speaking_time\<rparr>
                            in if speaking_time < 2
                               then c1\<lparr>turn_context := ctx2,
                                       adaptive_silence_threshold := max 1000 (SILENCE_THRESHOLD_MS - 200)\<rparr>
                               else c1\<lparr>turn_context := ctx2,
                                       adaptive_silence_threshold := SILENCE_THRESHOLD_MS\<rparr>)
                         else c1)
               in change_state PROCESSING c2)
            else if silence_duration_ms > PAUSE_THRESHOLD_MS then
              change_state USER_PAUSING c1
            else c1)
         else if state ctx1 = AGENT_INTERRUPTED then
           (if silence_duration_ms > PAUSE_THRESHOLD_MS
            then change_state PROCESSING c1
            else c1)
         else c1)"

definition should_process_audio :: "TurnTakingController \<Rightarrow> bool" where
  "should_process_audio c = (state (turn_context c) = PROCESSING)"

definition should_clear_audio_playback :: "TurnTakingController \<Rightarrow> bool" where
  "should_clear_audio_playback c = (state (turn_context c) = AGENT_INTERRUPTED)"

definition on_agent_start_speaking :: "real \<Rightarrow> TurnTakingController \<Rightarrow> TurnTakingController" where
  "on_agent_start_speaking now c =
     (let c1 = change_state AGENT_SPEAKING c
      in c1\<lparr>turn_context := (turn_context c1)\<lparr>agent_speech_start := Some now\<rparr>\<rparr>)"

definition on_agent_done_speaking :: "real \<Rightarrow> TurnTakingController \<Rightarrow> TurnTakingController" where
  "on_agent_done_speaking now c =
     (let ctx = turn_context c;
          ctx1 = (if truthy (agent_speech_start ctx)
                  then ctx\<lparr>total_agent_speaking_time :=
                             total_agent_speaking_time ctx + (now - the (agent_speech_start ctx))\<rparr>
                  else ctx);
          c1 = change_state IDLE (c\<lparr>turn_context := ctx1\<rparr>)
      in c1\<lparr>turn_context := (turn_context c1)\<lparr>agent_speech_start := None\<rparr>\<rparr>)"

definition on_processing_complete :: "TurnTakingController \<Rightarrow> TurnTakingController" where
  "on_processing_complete c =
     c\<lparr>turn_context := (turn_context c)\<lparr>current_audio_buffer_size := 0, user_speech_start := None\<rparr>\<rparr>"

text \<open>
  \<^verbatim>\<open>get_interruption_response\<close> returns the courtesy message (here: whether one is
  returned) and resets the counter when it does.
\<close>

definition get_interruption_response :: "TurnTakingController \<Rightarrow> bool \<times> TurnTakingController" where
  "get_interruption_response c =
     (if interruption_count (turn_context c) \<ge> MAX_INTERRUPTIONS
      then (True, c\<lparr>turn_context := (turn_context c)\<lparr>interruption_count := 0\<rparr>\<rparr>)
      else (False, c))"

definition reset_for_new_call :: "real \<Rightarrow> TurnTakingController \<Rightarrow> TurnTakingController" where
  "reset_for_new_call now c =
     c\<lparr>turn_context := new_context now, adaptive_silence_threshold := SILENCE_THRESHOLD_MS\<rparr>"


text \<open>
  A session drives the controller by a sequence of method calls.  A call is the method
  with its arguments; a timed call adds the clock reading the method takes.
\<close>

datatype call =
    VoiceDetected int int
  | SilenceDetected int
  | AgentStartSpeaking
  | AgentDoneSpeaking
  | ProcessingComplete
  | GetInterruptionResponse
  | ResetForNewCall

fun do_call :: "real \<Rightarrow> call \<Rightarrow> TurnTakingController \<Rightarrow> TurnTakingController" where
  "do_call now (VoiceDetected rms_energy audio_chunk_size) c =
     on_voice_detected now rms_energy audio_chunk_size c"
| "do_call now (SilenceDetected silence_duration_ms) c =
     on_silence_detected now silence_duration_ms c"
| "do_call now AgentStartSpeaking c = on_agent_start_speaking now c"
| "do_call now AgentDoneSpeaking c = on_agent_done_speaking now c"
| "do_call now ProcessingComplete c = on_processing_complete c"
| "do_call now GetInterruptionResponse c = snd (get_interruption_response c)"
| "do_call now ResetForNewCall c = reset_for_new_call now c"

fun replay :: "(real \<times> call) list \<Rightarrow> TurnTakingController \<Rightarrow> TurnTakingController" where
  "replay [] c = c"
| "replay ((now, k) # rest) c = replay rest (do_call now k c)"

text \<open>
  The two values the adaptive threshold takes: \<open>SILENCE_THRESHOLD_MS\<close> and
  \<open>max(1000, SILENCE_THRESHOLD_MS - 200)\<close>.
\<close>

definition thr_ok :: "TurnTakingController \<Rightarrow> bool" where
  "thr_ok c = (adaptive_silence_threshold c = 1300 \<or> adaptive_silence_threshold c = 1500)"

text \<open>
  A silence duration outside the band between the two threshold values compares the
  same way with both.
\<close>

fun outside_band :: "call \<Rightarrow> bool" where
  "outside_band (SilenceDetected d) = (d \<le> 1300 \<or> 1500 < d)"
| "outside_band k = True"

definition same_turn :: "TurnTakingController \<Rightarrow> TurnTakingController \<Rightarrow> bool" where
  "same_turn c1 c2 = (state (turn_context c1) = state (turn_context c2) \<and> thr_ok c1 \<and> thr_ok c2)"

text \<open>
  A controller in \<open>USER_SPEAKING\<close> with no recorded start of speech: a short first turn,
  the pipeline's \<^verbatim>\<open>on_processing_complete\<close>, then voice while still \<open>PROCESSING\<close>.
\<close>

definition c6_start :: TurnTakingController where
  "c6_start = replay [(1, VoiceDetected 200 160), (2, SilenceDetected 1600), (2, ProcessingComplete),
                      (3, VoiceDetected 200 160)] (new_controller 1)"

section \<open>Audio primitives of the standard library\<close>

text \<open>
  \<^verbatim>\<open>audioop\<close> is Python's standard library, not code of the repository.  The
  functions of the repository take it as a parameter: a record of the three
  operations they call, each at the sample width its call site passes, and each
  able to raise (the callers wrap them in \<^verbatim>\<open>try\<close>).  The type \<open>'pcm\<close> is the
  linear PCM fragment.
\<close>

type_synonym byte = "8 word"

datatype py_exception = PyException string

record 'pcm audioop =
  ulaw2lin :: "byte list \<Rightarrow> py_exception + 'pcm"
  rms :: "'pcm \<Rightarrow> py_exception + int"
  mul :: "'pcm \<Rightarrow> real \<Rightarrow> py_exception + 'pcm"

text \<open>
  One instance, for 16-bit fragments held as lists of samples, follows the
  library's documentation: \<^verbatim>\<open>ulaw2lin\<close> expands each byte by the G.711 rule,
  \<^verbatim>\<open>rms\<close> is \<open>sqrt(sum(S_i^2)/n)\<close> truncated to an integer, \<^verbatim>\<open>mul\<close> multiplies
  every sample by the factor and clips to the 16-bit range.  None of the three
  raises on these inputs.  The instance serves to evaluate the repository's
  functions on concrete audio.
\<close>

definition ulaw2linear16 :: "byte \<Rightarrow> int" where
  "ulaw2linear16 b =
     (let u = 255 - unat b;
          t = ((u mod 16) * 8 + 132) * 2 ^ ((u div 16) mod 8)
      in if u \<ge> 128 then 132 - int t else int t - 132)"

fun isqrt :: "nat \<Rightarrow> nat" where
  "isqrt n =
     (if n = 0 then 0
      else (let r = 2 * isqrt (n div 4)
            in if (r + 1) * (r + 1) \<le> n then r + 1 else r))"

declare isqrt.simps [simp del]

definition rms16 :: "int list \<Rightarrow> int" where
  "rms16 xs =
     (if xs = [] then 0
      else int (isqrt (nat (sum_list (map (\<lambda>x. x * x) xs)) div length xs)))"

definition clip16 :: "int \<Rightarrow> int" where
  "clip16 v = max (- 32768) (min 32767 v)"

definition mul16 :: "int list \<Rightarrow> real \<Rightarrow> int list" where
  "mul16 xs f = map (\<lambda>x. clip16 (\<lfloor>of_int x * f\<rfloor>)) xs"

definition audioop16 :: "int list audioop" where
  "audioop16 =
     \<lparr> ulaw2lin = (\<lambda>bs. Inr (map ulaw2linear16 bs)),
       rms = (\<lambda>xs. Inr (rms16 xs)),
       mul = (\<lambda>xs f. Inr (mul16 xs f)) \<rparr>"

section \<open>Inbound frames and playback (backend/twilio_integration.py)\<close>

text \<open>\<^verbatim>\<open>is_silence(audio_data, threshold=150)\<close>: any exception gives \<^verbatim>\<open>True\<close>.\<close>

definition is_silence :: "'pcm audioop \<Rightarrow> byte list \<Rightarrow> int \<Rightarrow> bool" where
  "is_silence lib audio_data threshold =
     (if length audio_data < 2 then True
      else (case ulaw2lin lib audio_data of
              Inl e \<Rightarrow> True
            | Inr pcm_data \<Rightarrow>
                (case rms lib pcm_data of
                   Inl e \<Rightarrow> True
                 | Inr r \<Rightarrow> r < threshold)))"

text \<open>\<^verbatim>\<open>calculate_audio_energy(audio_data)\<close>: any exception gives \<^verbatim>\<open>0\<close>.\<close>

definition calculate_audio_energy :: "'pcm audioop \<Rightarrow> byte list \<Rightarrow> int" where
  "calculate_audio_energy lib audio_data =
     (if length audio_data < 2 then 0
      else (case ulaw2lin lib audio_data of
              Inl e \<Rightarrow> 0
            | Inr pcm_data \<Rightarrow>
                (case rms lib pcm_data of
                   Inl e \<Rightarrow> 0
                 | Inr r \<Rightarrow> r)))"

text \<open>
  The local state of \<^verbatim>\<open>media_stream_websocket\<close> that its nested functions share,
  and the messages written to the socket (\<open>outbox\<close>, oldest first).
\<close>

datatype outbound =
    MediaMsg string "byte list"
  | MarkMsg string
  | ClearMsg string

record session =
  turn_controller :: TurnTakingController
  stream_sid :: "string option"
  audio_buffer :: "byte list"
  last_audio_time :: real
  is_processing :: bool
  websocket_active :: bool
  outbox :: "outbound list"

definition MIN_AUDIO_BUFFER :: nat where "MIN_AUDIO_BUFFER = 8000"
definition MAX_AUDIO_BUFFER :: nat where "MAX_AUDIO_BUFFER = 80000"

text \<open>
  The state after \<^verbatim>\<open>websocket.accept()\<close> and the initialisations that follow it.
\<close>

definition new_session :: "real \<Rightarrow> session" where
  "new_session now =
     \<lparr> turn_controller = new_controller now,
       stream_sid = None,
       audio_buffer = [],
       last_audio_time = now,
       is_processing = False,
       websocket_active = True,
       outbox = [] \<rparr>"

text \<open>Python truth value of \<^verbatim>\<open>stream_sid\<close>: \<^verbatim>\<open>None\<close> and the empty string are false.\<close>

definition sid_set :: "string option \<Rightarrow> bool" where
  "sid_set sid = (case sid of None \<Rightarrow> False | Some v \<Rightarrow> v \<noteq> [])"

text \<open>
  Writing to the socket can raise.  \<open>ws_send k m\<close> tells whether the write of message
  \<open>m\<close>, when \<open>k\<close> messages have been written before, succeeds.
\<close>

type_synonym socket = "nat \<Rightarrow> outbound \<Rightarrow> bool"

text \<open>\<^verbatim>\<open>clear_audio_playback()\<close>: a failed write is logged and nothing else changes.\<close>

definition clear_audio_playback :: "socket \<Rightarrow> session \<Rightarrow> session" where
  "clear_audio_playback ws_send s =
     (if \<not> websocket_active s \<or> \<not> sid_set (stream_sid s) then s
      else (let m = ClearMsg (the (stream_sid s))
            in if ws_send (length (outbox s)) m then s\<lparr>outbox := outbox s @ [m]\<rparr> else s))"

text \<open>
  The slices \<^verbatim>\<open>mulaw_audio[i:i + chunk_size]\<close> for \<^verbatim>\<open>i in range(0, len(mulaw_audio), chunk_size)\<close>.
\<close>

fun chunks :: "nat \<Rightarrow> 'a list \<Rightarrow> 'a list list" where
  "chunks n xs =
     (if n = 0 \<or> xs = [] then []
      else take n xs # chunks n (drop n xs))"

declare chunks.simps [simp del]

text \<open>
  The \<^verbatim>\<open>for\<close> loop of \<^verbatim>\<open>send_audio_to_twilio\<close> over the chunks still to send.
  \<open>Inl\<close> is a \<^verbatim>\<open>return False\<close> from inside the loop, \<open>Inr\<close> is the loop running to
  its end.  \<open>t_done\<close> is the clock reading of the one \<^verbatim>\<open>on_agent_done_speaking\<close>
  call that a run makes.
\<close>

fun send_chunks :: "socket \<Rightarrow> real \<Rightarrow> byte list list \<Rightarrow> session \<Rightarrow> session + session" where
  "send_chunks ws_send t_done [] s = Inr s"
| "send_chunks ws_send t_done (chunk # rest) s =
     (if should_clear_audio_playback (turn_controller s) \<or> \<not> websocket_active s then
        Inl (s\<lparr>turn_controller := on_agent_done_speaking t_done (turn_controller s)\<rparr>)
      else (let m = MediaMsg (the (stream_sid s)) chunk
            in if ws_send (length (outbox s)) m
               then send_chunks ws_send t_done rest (s\<lparr>outbox := outbox s @ [m]\<rparr>)
               else Inl (s\<lparr>websocket_active := False,
                          turn_controller := on_agent_done_speaking t_done (turn_controller s)\<rparr>)))"

text \<open>
  \<^verbatim>\<open>send_audio_to_twilio(audio_bytes)\<close>, returning the result and the state.
  \<^verbatim>\<open>wav_to_mulaw\<close> is a parameter: its result (\<^verbatim>\<open>None\<close> on failure) is all the
  function uses.  \<open>t_start\<close> is the clock reading of \<^verbatim>\<open>on_agent_start_speaking\<close>.
\<close>

definition send_audio_to_twilio ::
  "socket \<Rightarrow> (byte list \<Rightarrow> byte list option) \<Rightarrow> real \<Rightarrow> real \<Rightarrow> byte list \<Rightarrow> session
     \<Rightarrow> bool \<times> session" where
  "send_audio_to_twilio ws_send wav_to_mulaw t_start t_done audio_bytes s =
     (if \<not> websocket_active s \<or> \<not> sid_set (stream_sid s) then (False, s)
      else (let s1 = s\<lparr>turn_controller := on_agent_start_speaking t_start (turn_controller s)\<rparr>;
                mulaw_audio = wav_to_mulaw audio_bytes
            in if mulaw_audio = None \<or> mulaw_audio = Some [] then
                 (False, s1\<lparr>turn_controller := on_agent_done_speaking t_done (turn_controller s1)\<rparr>)
               else (case send_chunks ws_send t_done (chunks 1600 (the mulaw_audio)) s1 of
                       Inl s2 \<Rightarrow> (False, s2)
                     | Inr s2 \<Rightarrow>
                         (let m = MarkMsg (the (stream_sid s2))
                          in if ws_send (length (outbox s2)) m
                             then (True, s2\<lparr>outbox := outbox s2 @ [m],
                                            turn_controller :=
                                              on_agent_done_speaking t_done (turn_controller s2)\<rparr>)
                             else (False, s2\<lparr>websocket_active := False,
                                             turn_controller :=
                                               on_agent_done_speaking t_done (turn_controller s2)\<rparr>)))))"

text \<open>
  The synchronous head of \<^verbatim>\<open>process_audio_and_respond\<close>: the guard, then
  \<^verbatim>\<open>on_processing_complete\<close>, the flag, and the hand-over of the buffer, which is
  emptied.  The result is the audio handed to transcription, if any.
\<close>

definition process_audio_begin :: "session \<Rightarrow> byte list option \<times> session" where
  "process_audio_begin s =
     (if is_processing s \<or> length (audio_buffer s) < MIN_AUDIO_BUFFER \<or> \<not> websocket_active s
      then (None, s)
      else (Some (audio_buffer s),
            s\<lparr>turn_controller := on_processing_complete (turn_controller s),
              is_processing := True,
              audio_buffer := []\<rparr>))"

text \<open>Python's \<^verbatim>\<open>int(x)\<close> on a float truncates toward zero.\<close>

definition py_int :: "real \<Rightarrow> int" where
  "py_int x = (if x \<ge> 0 then \<lfloor>x\<rfloor> else \<lceil>x\<rceil>)"

text \<open>
  The handler of one \<^verbatim>\<open>media\<close> event whose payload decodes to \<open>audio_chunk\<close>
  (an empty payload is skipped).  The clock readings of one run of the handler are
  taken as one reading \<open>now\<close>.  \<^verbatim>\<open>asyncio.create_task(process_audio_and_respond())\<close>
  starts the task at the loop's next suspension, before the next message is read;
  the model runs its synchronous head at once.
\<close>

definition on_media :: "'pcm audioop \<Rightarrow> socket \<Rightarrow> real \<Rightarrow> byte list \<Rightarrow> session \<Rightarrow> session" where
  "on_media lib ws_send now audio_chunk s =
     (if audio_chunk = [] then s
      else (let rms_energy = (case ulaw2lin lib audio_chunk of
                                Inl e \<Rightarrow> 0
                              | Inr pcm_data \<Rightarrow> (case rms lib pcm_data of Inl e \<Rightarrow> 0 | Inr r \<Rightarrow> r))
            in if \<not> is_silence lib audio_chunk 150 then
                 (let s1 = s\<lparr>turn_controller :=
                               on_voice_detected now rms_energy (int (length audio_chunk))
                                 (turn_controller s),
                             audio_buffer := audio_buffer s @ audio_chunk,
                             last_audio_time := now\<rparr>
                  in if state (turn_context (turn_controller s1)) = AGENT_SPEAKING
                     then (clear_audio_playback ws_send s1)\<lparr>is_processing := False\<rparr>
                     else s1)
               else
                 (let silence_duration = now - last_audio_time s;
                      silence_duration_ms = py_int (silence_duration * 1000);
                      s1 = s\<lparr>turn_controller :=
                               on_silence_detected now silence_duration_ms (turn_controller s)\<rparr>
                  in if length (audio_buffer s1) > MIN_AUDIO_BUFFER \<and> silence_duration > 1.5
                        \<and> \<not> is_processing s1
                     then snd (process_audio_begin s1)
                     else s1)))"

text \<open>The receive loop over a sequence of \<^verbatim>\<open>media\<close> events, each with its arrival time.\<close>

fun media_events :: "'pcm audioop \<Rightarrow> socket \<Rightarrow> (real \<times> byte list) list \<Rightarrow> session \<Rightarrow> session" where
  "media_events lib ws_send [] s = s"
| "media_events lib ws_send ((now, audio_chunk) # evs) s =
     media_events lib ws_send evs (on_media lib ws_send now audio_chunk s)"

definition speaking_session :: session where
  "speaking_session =
     (new_session 1)\<lparr>stream_sid := Some ''MZ1'',
                     turn_controller := on_agent_start_speaking 2 (new_controller 1)\<rparr>"

definition interrupted_session :: session where
  "interrupted_session =
     speaking_session\<lparr>turn_controller := on_voice_detected 3 2000 160 (turn_controller speaking_session)\<rparr>"

definition unmatched_voice :: "TurnTakingController \<Rightarrow> bool" where
  "unmatched_voice c =
     (state (turn_context c) = USER_SPEAKING \<or> state (turn_context c) = AGENT_INTERRUPTED
      \<or> state (turn_context c) = HANDOFF_PENDING)"

definition unmatched_silence :: "int \<Rightarrow> TurnTakingController \<Rightarrow> bool" where
  "unmatched_silence d c =
     (if state (turn_context c) = USER_SPEAKING
      then d \<le> adaptive_silence_threshold c \<and> d \<le> PAUSE_THRESHOLD_MS
      else if state (turn_context c) = AGENT_INTERRUPTED
      then d \<le> PAUSE_THRESHOLD_MS
      else True)"

definition user_speaking_controller :: TurnTakingController where
  "user_speaking_controller = on_voice_detected 1 200 160 (new_controller 1)"

definition broken_audioop :: "int list audioop" where
  "broken_audioop = audioop16\<lparr>ulaw2lin := (\<lambda>bs. Inl (PyException ''ulaw2lin''))\<rparr>"

text \<open>
  A loud frame as the telephony channel sends it: 20 ms at 8 kHz, 160 bytes, every
  byte \<open>0x00\<close> (the mu-law code of the sample \<open>-32124\<close>).
\<close>

definition loud_frame :: "byte list" where
  "loud_frame = replicate 160 0"

text \<open>A call of a little over ten seconds of uninterrupted loud speech: 501 frames.\<close>

definition long_speech :: "(real \<times> byte list) list" where
  "long_speech = map (\<lambda>i. (real i / 50, loud_frame)) [0..<501]"

section \<open>Transcription with retries (backend/robust_stt.py)\<close>

text \<open>
  A Python \<^verbatim>\<open>str\<close> is a sequence of Unicode code points; its \<^verbatim>\<open>len\<close> counts them.
  A text produced by the recognizer is a list of code points.  The literals of the
  source are ASCII but for one Korean pattern, and \<open>lit\<close> gives the code points of an
  ASCII literal.
\<close>

type_synonym pystr = "nat list"


text \<open>The code points that \<^verbatim>\<open>str.strip()\<close> removes: those for which \<^verbatim>\<open>str.isspace\<close> holds.\<close>

definition py_isspace :: "nat \<Rightarrow> bool" where
  "py_isspace c =
     ((9 \<le> c \<and> c \<le> 13) \<or> (28 \<le> c \<and> c \<le> 32) \<or> c = 133 \<or> c = 160 \<or> c = 5760
      \<or> (8192 \<le> c \<and> c \<le> 8202) \<or> c = 8232 \<or> c = 8233 \<or> c = 8239 \<or> c = 8287
      \<or> c = 12288)"

definition strip :: "pystr \<Rightarrow> pystr" where
  "strip s = rev (dropWhile py_isspace (rev (dropWhile py_isspace s)))"








record strategy =
  name :: string
  model :: string
  temperature :: real
  prompt :: "string option"
  language :: "string option"


text \<open>
  The keyword arguments of one call of \<^verbatim>\<open>groq_client.audio.transcriptions.create\<close>.
  \<^verbatim>\<open>prompt\<close> and \<^verbatim>\<open>language\<close> are passed only when the strategy's value is true as
  a Python value (neither \<^verbatim>\<open>None\<close> nor empty).
\<close>

record request =
  req_file :: "byte list"
  req_model :: string
  req_response_format :: string
  req_temperature :: real
  req_prompt :: "string option"
  req_language :: "string option"

definition nonempty :: "string option \<Rightarrow> string option" where
  "nonempty v = (case v of None \<Rightarrow> None | Some s \<Rightarrow> (if s = [] then None else Some s))"

definition request_of :: "byte list \<Rightarrow> strategy \<Rightarrow> request" where
  "request_of audio st =
     \<lparr> req_file = audio,
       req_model = model st,
       req_response_format = ''text'',
       req_temperature = temperature st,
       req_prompt = nonempty (prompt st),
       req_language = nonempty (language st) \<rparr>"

text \<open>
  The recognizer is a remote service with a state of its own: a call takes the
  client's state and the request and gives an outcome and the next state.  The
  outcome is the returned text (empty for \<^verbatim>\<open>None\<close> or \<^verbatim>\<open>""\<close>) or an exception, of
  which the loop keeps \<^verbatim>\<open>str(e)\<close>.
\<close>

datatype outcome = Raised string | Returned pystr

type_synonym 'c recognizer = "'c \<Rightarrow> request \<Rightarrow> outcome \<times> 'c"







text \<open>
  The specification's reading of the loop, to compare the loop with: the outcomes of
  calling the recognizer on every strategy in order, and whether an outcome is a
  validated result.
\<close>

fun outcomes_in_order :: "'c recognizer \<Rightarrow> byte list \<Rightarrow> strategy list \<Rightarrow> 'c \<Rightarrow> outcome list" where
  "outcomes_in_order recognize audio [] c = []"
| "outcomes_in_order recognize audio (st # rest) c =
     (let (out, c') = recognize c (request_of audio st)
      in out # outcomes_in_order recognize audio rest c')"








section \<open>Volume normalisation (backend/robust_stt.py, preprocess_audio, step 3)\<close>





section \<open>Properties of the turn-taking state machine\<close>

lemmas ctl_defs = on_voice_detected_def on_silence_detected_def on_agent_start_speaking_def
  on_agent_done_speaking_def on_processing_complete_def get_interruption_response_def
  reset_for_new_call_def change_state_def should_clear_audio_playback_def new_controller_def new_context_def
  SILENCE_THRESHOLD_MS_def PAUSE_THRESHOLD_MS_def MAX_INTERRUPTIONS_def truthy_def


lemma thr_ok_do_call: "thr_ok c \<Longrightarrow> thr_ok (do_call now k c)"
  by (cases k) (auto simp: thr_ok_def ctl_defs Let_def)

lemma thr_ok_replay: "thr_ok c \<Longrightarrow> thr_ok (replay tcs c)"
proof (induction tcs arbitrary: c)
  case Nil
  then show ?case by simp
next
  case (Cons tc tcs)
  obtain now k where tc: "tc = (now, k)" by (cases tc)
  from Cons.prems have "thr_ok (do_call now k c)" by (rule thr_ok_do_call)
  then have "thr_ok (replay tcs (do_call now k c))" by (rule Cons.IH)
  then show ?case by (simp add: tc)
qed

lemma thr_ok_new: "thr_ok (new_controller t)"
  by (simp add: thr_ok_def new_controller_def SILENCE_THRESHOLD_MS_def)

text \<open>
  C6 (amended).  In \<open>USER_SPEAKING\<close>, a silence longer than the adaptive threshold moves
  the controller to \<open>PROCESSING\<close>.  When a start of speech is recorded
  (\<^verbatim>\<open>user_speech_start\<close> is true as a Python value), the speaking time is added to
  \<^verbatim>\<open>total_user_speaking_time\<close> and the threshold becomes 1300 ms for a speaking time
  under 2 seconds and 1500 ms otherwise; when none is recorded, both are left as they
  are.  After any sequence of calls from a new controller the adaptive threshold lies
  between 1000 ms and 1500 ms.
\<close>

theorem end_of_turn_silence:
  "(state (turn_context c) = USER_SPEAKING \<and> adaptive_silence_threshold c < d \<longrightarrow>
      (let c' = on_silence_detected now d c;
           start = user_speech_start (turn_context c)
       in state (turn_context c') = PROCESSING
          \<and> (truthy start \<longrightarrow>
                total_user_speaking_time (turn_context c')
                  = total_user_speaking_time (turn_context c) + (now - the start)
                \<and> adaptive_silence_threshold c' = (if now - the start < 2 then 1300 else 1500))
          \<and> (\<not> truthy start \<longrightarrow>
                total_user_speaking_time (turn_context c') = total_user_speaking_time (turn_context c)
                \<and> adaptive_silence_threshold c' = adaptive_silence_threshold c)))
   \<and> 1000 \<le> adaptive_silence_threshold (replay tcs (new_controller t0))
   \<and> adaptive_silence_threshold (replay tcs (new_controller t0)) \<le> 1500"
proof -
  have "thr_ok (replay tcs (new_controller t0))"
    by (rule thr_ok_replay) (rule thr_ok_new)
  then have bounds: "1000 \<le> adaptive_silence_threshold (replay tcs (new_controller t0))
      \<and> adaptive_silence_threshold (replay tcs (new_controller t0)) \<le> 1500"
    by (auto simp: thr_ok_def)
  have step: "state (turn_context c) = USER_SPEAKING \<and> adaptive_silence_threshold c < d \<longrightarrow>
      (let c' = on_silence_detected now d c;
           start = user_speech_start (turn_context c)
       in state (turn_context c') = PROCESSING
          \<and> (truthy start \<longrightarrow>
                total_user_speaking_time (turn_context c')
                  = total_user_speaking_time (turn_context c) + (now - the start)
                \<and> adaptive_silence_threshold c' = (if now - the start < 2 then 1300 else 1500))
          \<and> (\<not> truthy start \<longrightarrow>
                total_user_speaking_time (turn_context c') = total_user_speaking_time (turn_context c)
                \<and> adaptive_silence_threshold c' = adaptive_silence_threshold c))"
    by (simp add: on_silence_detected_def change_state_def SILENCE_THRESHOLD_MS_def Let_def)
  from step bounds show ?thesis by blast
qed

text \<open>
  C6 as stated fails where no start of speech is recorded: in \<open>c6_start\<close> the user has
  been speaking for ten seconds when the silence arrives, yet the cumulative counter
  keeps its value 1 and the threshold stays at 1300 ms instead of going back up.
\<close>

theorem end_of_turn_silence_counterexample:
  "state (turn_context c6_start) = USER_SPEAKING
   \<and> adaptive_silence_threshold c6_start = 1300
   \<and> total_user_speaking_time (turn_context c6_start) = 1
   \<and> state (turn_context (on_silence_detected 13 1600 c6_start)) = PROCESSING
   \<and> total_user_speaking_time (turn_context (on_silence_detected 13 1600 c6_start)) = 1
   \<and> adaptive_silence_threshold (on_silence_detected 13 1600 c6_start) = 1300"
  by (simp add: c6_start_def ctl_defs Let_def)

text \<open>
  C6 (amended) at two concrete controllers, one with and one without a recorded start.
\<close>

theorem end_of_turn_silence_witness:
  "state (turn_context (on_voice_detected 1 200 160 (new_controller 1))) = USER_SPEAKING
   \<and> adaptive_silence_threshold (on_voice_detected 1 200 160 (new_controller 1)) < 1600
   \<and> truthy (user_speech_start (turn_context (on_voice_detected 1 200 160 (new_controller 1))))
   \<and> state (turn_context (on_silence_detected 2 1600 (on_voice_detected 1 200 160 (new_controller 1)))) = PROCESSING
   \<and> total_user_speaking_time (turn_context (on_silence_detected 2 1600 (on_voice_detected 1 200 160 (new_controller 1)))) = 1
   \<and> adaptive_silence_threshold (on_silence_detected 2 1600 (on_voice_detected 1 200 160 (new_controller 1))) = 1300
   \<and> state (turn_context c6_start) = USER_SPEAKING
   \<and> adaptive_silence_threshold c6_start < 1600
   \<and> \<not> truthy (user_speech_start (turn_context c6_start))
   \<and> adaptive_silence_threshold (on_silence_detected 13 1600 c6_start) = adaptive_silence_threshold c6_start"
proof -
  have a: "state (turn_context (on_voice_detected 1 200 160 (new_controller 1))) = USER_SPEAKING
     \<and> adaptive_silence_threshold (on_voice_detected 1 200 160 (new_controller 1)) < 1600
     \<and> truthy (user_speech_start (turn_context (on_voice_detected 1 200 160 (new_controller 1))))
     \<and> the (user_speech_start (turn_context (on_voice_detected 1 200 160 (new_controller 1)))) = 1
     \<and> total_user_speaking_time (turn_context (on_voice_detected 1 200 160 (new_controller 1))) = 0"
    by (simp add: ctl_defs Let_def)
  have b: "state (turn_context c6_start) = USER_SPEAKING
     \<and> adaptive_silence_threshold c6_start < 1600
     \<and> \<not> truthy (user_speech_start (turn_context c6_start))"
    by (simp add: c6_start_def ctl_defs Let_def)
  show ?thesis
    using a b
      end_of_turn_silence [of "on_voice_detected 1 200 160 (new_controller 1)" 1600 2 "[]" 0]
      end_of_turn_silence [of c6_start 1600 13 "[]" 0]
    by (simp add: Let_def)
qed

text \<open>
  C7 as stated fails: the same four calls with the same arguments, replayed with
  different clock readings, end in \<open>PROCESSING\<close> and in \<open>USER_PAUSING\<close>.
\<close>

theorem replay_determinism_counterexample:
  "map snd [(1, VoiceDetected 200 160), (2, SilenceDetected 1600), (3, VoiceDetected 200 160), (4, SilenceDetected 1400)]
     = map snd [(1::real, VoiceDetected 200 160), (4, SilenceDetected 1600), (5, VoiceDetected 200 160), (6, SilenceDetected 1400)]
   \<and> state (turn_context (replay [(1, VoiceDetected 200 160), (2, SilenceDetected 1600),
                                   (3, VoiceDetected 200 160), (4, SilenceDetected 1400)] (new_controller 1)))
       = PROCESSING
   \<and> state (turn_context (replay [(1, VoiceDetected 200 160), (4, SilenceDetected 1600),
                                   (5, VoiceDetected 200 160), (6, SilenceDetected 1400)] (new_controller 1)))
       = USER_PAUSING"
  by (simp add: ctl_defs Let_def)

lemma same_turn_do_call:
  "same_turn c1 c2 \<Longrightarrow> outside_band k \<Longrightarrow> same_turn (do_call n1 k c1) (do_call n2 k c2)"
  by (cases k) (auto simp: same_turn_def thr_ok_def ctl_defs Let_def)

lemma same_turn_replay:
  "same_turn c1 c2 \<Longrightarrow> map snd tcs1 = map snd tcs2 \<Longrightarrow> list_all outside_band (map snd tcs1)
     \<Longrightarrow> same_turn (replay tcs1 c1) (replay tcs2 c2)"
proof (induction tcs1 arbitrary: tcs2 c1 c2)
  case Nil
  then show ?case by simp
next
  case (Cons tc tcs1)
  obtain n1 k where tc: "tc = (n1, k)" by (cases tc)
  from Cons.prems(2) tc obtain n2 rest where tcs2: "tcs2 = (n2, k) # rest" and rest: "map snd tcs1 = map snd rest"
    by (cases tcs2) auto
  from Cons.prems(3) tc have k: "outside_band k" and all: "list_all outside_band (map snd tcs1)"
    by simp_all
  from Cons.prems(1) k have "same_turn (do_call n1 k c1) (do_call n2 k c2)"
    by (rule same_turn_do_call)
  then have "same_turn (replay tcs1 (do_call n1 k c1)) (replay rest (do_call n2 k c2))"
    using rest all by (rule Cons.IH)
  then show ?case by (simp add: tc tcs2)
qed

text \<open>
  C7 (amended).  Two controllers that start new and receive the same sequence of calls
  with the same arguments end in the same \<open>TurnState\<close>, whatever their clock readings,
  provided no silence duration lies above 1300 ms and at most 1500 ms (the band
  between the two values of the adaptive threshold).
\<close>

theorem replay_determinism_outside_band:
  assumes "map snd tcs1 = map snd tcs2"
    and "list_all outside_band (map snd tcs1)"
  shows "state (turn_context (replay tcs1 (new_controller t1)))
       = state (turn_context (replay tcs2 (new_controller t2)))"
proof -
  have "same_turn (new_controller t1) (new_controller t2)"
    by (simp add: same_turn_def thr_ok_new) (simp add: new_controller_def new_context_def)
  then have "same_turn (replay tcs1 (new_controller t1)) (replay tcs2 (new_controller t2))"
    using assms by (rule same_turn_replay)
  then show ?thesis by (simp add: same_turn_def)
qed

text \<open>C7 (amended) at two replays of four calls with different clock readings.\<close>

theorem replay_determinism_outside_band_witness:
  "map snd [(1, VoiceDetected 200 160), (2, SilenceDetected 1600), (3, VoiceDetected 200 160), (4, SilenceDetected 900)]
     = map snd [(1::real, VoiceDetected 200 160), (4, SilenceDetected 1600), (5, VoiceDetected 200 160), (6, SilenceDetected 900)]
   \<and> list_all outside_band (map snd [(1::real, VoiceDetected 200 160), (2, SilenceDetected 1600),
                                        (3, VoiceDetected 200 160), (4, SilenceDetected 900)])
   \<and> state (turn_context (replay [(1, VoiceDetected 200 160), (2, SilenceDetected 1600),
                                   (3, VoiceDetected 200 160), (4, SilenceDetected 900)] (new_controller 1)))
     = state (turn_context (replay [(1, VoiceDetected 200 160), (4, SilenceDetected 1600),
                                   (5, VoiceDetected 200 160), (6, SilenceDetected 900)] (new_controller 7)))"
  using replay_determinism_outside_band
      [of "[(1, VoiceDetected 200 160), (2, SilenceDetected 1600), (3, VoiceDetected 200 160), (4, SilenceDetected 900)]"
          "[(1, VoiceDetected 200 160), (4, SilenceDetected 1600), (5, VoiceDetected 200 160), (6, SilenceDetected 900)]"
          1 7]
  by simp

text \<open>
  C1.  In \<open>AGENT_SPEAKING\<close>, \<^verbatim>\<open>on_voice_detected\<close> moves the controller to
  \<open>AGENT_INTERRUPTED\<close> and adds one to the interruption count; right after it
  \<^verbatim>\<open>should_clear_audio_playback()\<close> is true, and the playback loop, whatever chunks
  remain, returns at its check without writing a further chunk.
\<close>

theorem voice_interrupts_agent:
  assumes "state (turn_context (turn_controller s)) = AGENT_SPEAKING"
  shows "let c' = on_voice_detected now rms_energy n (turn_controller s);
             s' = s\<lparr>turn_controller := c'\<rparr>
         in state (turn_context c') = AGENT_INTERRUPTED
          \<and> interruption_count (turn_context c') = interruption_count (turn_context (turn_controller s)) + 1
          \<and> should_clear_audio_playback c'
          \<and> (\<exists>s2. send_chunks ws_send t_done (chunk # rest) s' = Inl s2 \<and> outbox s2 = outbox s')"
  using assms by (simp add: ctl_defs Let_def)

text \<open>C1 at a session whose agent has started speaking, with two chunks left.\<close>

theorem voice_interrupts_agent_witness:
  "state (turn_context (turn_controller speaking_session)) = AGENT_SPEAKING
   \<and> state (turn_context (on_voice_detected 3 2000 160 (turn_controller speaking_session))) = AGENT_INTERRUPTED
   \<and> interruption_count (turn_context (on_voice_detected 3 2000 160 (turn_controller speaking_session))) = 1
   \<and> should_clear_audio_playback (on_voice_detected 3 2000 160 (turn_controller speaking_session))
   \<and> (\<exists>s2. send_chunks (\<lambda>k m. True) 4 [[1, 2], [3]]
              (speaking_session\<lparr>turn_controller := on_voice_detected 3 2000 160 (turn_controller speaking_session)\<rparr>)
            = Inl s2 \<and> outbox s2 = [])"
proof -
  have a: "state (turn_context (turn_controller speaking_session)) = AGENT_SPEAKING"
    by (simp add: speaking_session_def ctl_defs Let_def)
  have b: "interruption_count (turn_context (turn_controller speaking_session)) = 0"
    by (simp add: speaking_session_def ctl_defs Let_def new_session_def)
  have c: "outbox speaking_session = []"
    by (simp add: speaking_session_def new_session_def)
  show ?thesis
    using a b c voice_interrupts_agent [OF a, of 3 2000 160 "\<lambda>k m. True" 4 "[1, 2]" "[[3]]"]
    by (simp add: Let_def)
qed

text \<open>
  C10.  From every state \<^verbatim>\<open>on_agent_start_speaking\<close> sets \<open>AGENT_SPEAKING\<close> and
  \<^verbatim>\<open>on_agent_done_speaking\<close> sets \<open>IDLE\<close>, which ends the interruption condition; the
  playback loop, when its check finds the interruption, calls
  \<^verbatim>\<open>on_agent_done_speaking\<close> and returns, leaving the controller in \<open>IDLE\<close>.
\<close>

theorem agent_playback_calls:
  "state (turn_context (on_agent_start_speaking now c)) = AGENT_SPEAKING
   \<and> state (turn_context (on_agent_done_speaking now c)) = IDLE
   \<and> \<not> should_clear_audio_playback (on_agent_done_speaking now c)
   \<and> (should_clear_audio_playback (turn_controller s) \<longrightarrow>
        send_chunks ws_send t_done (chunk # rest) s
          = Inl (s\<lparr>turn_controller := on_agent_done_speaking t_done (turn_controller s)\<rparr>)
        \<and> state (turn_context (on_agent_done_speaking t_done (turn_controller s))) = IDLE)"
  by (simp add: ctl_defs Let_def)

text \<open>C10 at an interrupted session with two chunks left.\<close>

theorem agent_playback_calls_witness:
  "should_clear_audio_playback (turn_controller interrupted_session)
   \<and> send_chunks (\<lambda>k m. True) 4 [[1, 2], [3]] interrupted_session
       = Inl (interrupted_session\<lparr>turn_controller := on_agent_done_speaking 4 (turn_controller interrupted_session)\<rparr>)
   \<and> state (turn_context (on_agent_done_speaking 4 (turn_controller interrupted_session))) = IDLE"
proof -
  have a: "should_clear_audio_playback (turn_controller interrupted_session)"
    by (simp add: interrupted_session_def speaking_session_def ctl_defs Let_def)
  show ?thesis
    using a agent_playback_calls [of 4 "turn_controller interrupted_session" interrupted_session "\<lambda>k m. True" 4 "[1, 2]" "[[3]]"]
    by simp
qed

text \<open>
  C8 (amended).  A call that takes no transition leaves the \<open>TurnState\<close> and returns
  normally.  \<^verbatim>\<open>on_voice_detected\<close> then sets \<^verbatim>\<open>last_voice_activity\<close>, resets
  \<^verbatim>\<open>consecutive_silences\<close> to 0 and adds the chunk size to
  \<^verbatim>\<open>current_audio_buffer_size\<close>; \<^verbatim>\<open>on_silence_detected\<close> adds one to
  \<^verbatim>\<open>consecutive_silences\<close>.  Nothing else of the controller changes.
\<close>

theorem unmatched_event_effect:
  "(unmatched_voice c \<longrightarrow>
      on_voice_detected now rms_energy n c
        = c\<lparr>turn_context := (turn_context c)
               \<lparr>last_voice_activity := now,
                consecutive_silences := 0,
                current_audio_buffer_size := current_audio_buffer_size (turn_context c) + n\<rparr>\<rparr>)
   \<and> (unmatched_silence d c \<longrightarrow>
      on_silence_detected now d c
        = c\<lparr>turn_context := (turn_context c)
               \<lparr>consecutive_silences := consecutive_silences (turn_context c) + 1\<rparr>\<rparr>)"
  by (auto simp: unmatched_voice_def unmatched_silence_def ctl_defs Let_def split: if_splits)

text \<open>
  C8 as stated fails: voice in \<open>USER_SPEAKING\<close> changes \<^verbatim>\<open>current_audio_buffer_size\<close>
  from 160 to 320, and silence in \<open>IDLE\<close> counts up \<^verbatim>\<open>consecutive_silences\<close> at each
  call while the last-activity time stays as it was.
\<close>

theorem unmatched_event_counterexample:
  "state (turn_context user_speaking_controller) = USER_SPEAKING
   \<and> state (turn_context (on_voice_detected 2 200 160 user_speaking_controller)) = USER_SPEAKING
   \<and> current_audio_buffer_size (turn_context user_speaking_controller) = 160
   \<and> current_audio_buffer_size (turn_context (on_voice_detected 2 200 160 user_speaking_controller)) = 320
   \<and> on_voice_detected 2 200 160 user_speaking_controller
       \<noteq> user_speaking_controller\<lparr>turn_context := (turn_context user_speaking_controller)\<lparr>last_voice_activity := 2\<rparr>\<rparr>
   \<and> state (turn_context (new_controller 1)) = IDLE
   \<and> consecutive_silences (turn_context (on_silence_detected 2 500 (new_controller 1))) = 1
   \<and> consecutive_silences (turn_context (on_silence_detected 3 500 (on_silence_detected 2 500 (new_controller 1)))) = 2
   \<and> last_voice_activity (turn_context (on_silence_detected 2 500 (new_controller 1))) = 1"
proof -
  have a: "current_audio_buffer_size (turn_context user_speaking_controller) = 160"
    by (simp add: user_speaking_controller_def ctl_defs Let_def)
  have b: "current_audio_buffer_size (turn_context (on_voice_detected 2 200 160 user_speaking_controller)) = 320"
    by (simp add: user_speaking_controller_def ctl_defs Let_def)
  have c: "on_voice_detected 2 200 160 user_speaking_controller
       \<noteq> user_speaking_controller\<lparr>turn_context := (turn_context user_speaking_controller)\<lparr>last_voice_activity := 2\<rparr>\<rparr>"
  proof
    assume "on_voice_detected 2 200 160 user_speaking_controller
       = user_speaking_controller\<lparr>turn_context := (turn_context user_speaking_controller)\<lparr>last_voice_activity := 2\<rparr>\<rparr>"
    then have "current_audio_buffer_size (turn_context (on_voice_detected 2 200 160 user_speaking_controller))
       = current_audio_buffer_size (turn_context user_speaking_controller)"
      by simp
    with a b show False by simp
  qed
  have d: "state (turn_context user_speaking_controller) = USER_SPEAKING
   \<and> state (turn_context (on_voice_detected 2 200 160 user_speaking_controller)) = USER_SPEAKING"
    by (simp add: user_speaking_controller_def ctl_defs Let_def)
  have e: "state (turn_context (new_controller 1)) = IDLE
   \<and> consecutive_silences (turn_context (on_silence_detected 2 500 (new_controller 1))) = 1
   \<and> consecutive_silences (turn_context (on_silence_detected 3 500 (on_silence_detected 2 500 (new_controller 1)))) = 2
   \<and> last_voice_activity (turn_context (on_silence_detected 2 500 (new_controller 1))) = 1"
    by (simp add: ctl_defs Let_def)
  from a b c d e show ?thesis by blast
qed

text \<open>C8 (amended) at voice in \<open>USER_SPEAKING\<close> and at silence in \<open>IDLE\<close>.\<close>

theorem unmatched_event_effect_witness:
  "unmatched_voice user_speaking_controller
   \<and> on_voice_detected 2 200 160 user_speaking_controller
       = user_speaking_controller\<lparr>turn_context := (turn_context user_speaking_controller)
               \<lparr>last_voice_activity := 2, consecutive_silences := 0, current_audio_buffer_size := 320\<rparr>\<rparr>
   \<and> unmatched_silence 500 (new_controller 1)
   \<and> on_silence_detected 2 500 (new_controller 1)
       = (new_controller 1)\<lparr>turn_context := (turn_context (new_controller 1))\<lparr>consecutive_silences := 1\<rparr>\<rparr>"
proof -
  have a: "unmatched_voice user_speaking_controller"
    by (simp add: unmatched_voice_def user_speaking_controller_def ctl_defs Let_def)
  have a': "current_audio_buffer_size (turn_context user_speaking_controller) = 160"
    by (simp add: user_speaking_controller_def ctl_defs Let_def)
  have b: "unmatched_silence 500 (new_controller 1)"
    by (simp add: unmatched_silence_def ctl_defs)
  have b': "consecutive_silences (turn_context (new_controller 1)) = 0"
    by (simp add: ctl_defs)
  show ?thesis
    using a a' b b'
      unmatched_event_effect [of user_speaking_controller 2 200 160 500]
      unmatched_event_effect [of "new_controller 1" 2 200 160 500]
    by simp
qed

text \<open>
  C9.  \<^verbatim>\<open>is_silence\<close> and \<^verbatim>\<open>calculate_audio_energy\<close> are total.  On an input shorter
  than two bytes, and on an input whose decoding or energy computation raises,
  \<^verbatim>\<open>is_silence\<close> returns true and \<^verbatim>\<open>calculate_audio_energy\<close> returns 0.
\<close>

theorem undecodable_frame_is_silence:
  "(length audio_data < 2
      \<or> (\<exists>e. ulaw2lin lib audio_data = Inl e)
      \<or> (\<exists>pcm e. ulaw2lin lib audio_data = Inr pcm \<and> rms lib pcm = Inl e)
    \<longrightarrow> is_silence lib audio_data threshold \<and> calculate_audio_energy lib audio_data = 0)"
  by (auto simp: is_silence_def calculate_audio_energy_def)

text \<open>C9 at the empty frame, a one-byte frame and a frame whose decoding raises.\<close>

theorem undecodable_frame_is_silence_witness:
  "length ([] :: byte list) < 2
   \<and> is_silence audioop16 [] 150 \<and> calculate_audio_energy audioop16 [] = 0
   \<and> is_silence audioop16 [0] 150 \<and> calculate_audio_energy audioop16 [0] = 0
   \<and> (\<exists>e. ulaw2lin broken_audioop [0, 0, 0] = Inl e)
   \<and> is_silence broken_audioop [0, 0, 0] 150 \<and> calculate_audio_energy broken_audioop [0, 0, 0] = 0"
  using undecodable_frame_is_silence [of "[]" audioop16 150]
    undecodable_frame_is_silence [of "[0]" audioop16 150]
    undecodable_frame_is_silence [of "[0, 0, 0]" broken_audioop 150]
  by (simp add: broken_audioop_def)

section \<open>Properties of the inbound frame handler\<close>

lemma ulaw_zero: "ulaw2linear16 0 = - 32124"
  by (simp add: ulaw2linear16_def Let_def)

lemma isqrt_sound: "isqrt n * isqrt n \<le> n \<and> n < (isqrt n + 1) * (isqrt n + 1)"
proof (induction n rule: isqrt.induct)
  case (1 n)
  show ?case
  proof (cases "n = 0")
    case True
    then show ?thesis by (simp add: isqrt.simps)
  next
    case False
    define q where "q = isqrt (n div 4)"
    from 1 False have IH: "q * q \<le> n div 4 \<and> n div 4 < (q + 1) * (q + 1)"
      by (simp add: q_def)
    have lo: "4 * (q * q) \<le> n" using IH by (simp add: algebra_simps) arith
    have "n div 4 + 1 \<le> (q + 1) * (q + 1)" using IH by simp
    then have "4 * (n div 4) + 4 \<le> 4 * ((q + 1) * (q + 1))" by simp
    then have hi: "n < 4 * ((q + 1) * (q + 1))" by arith
    have eq: "isqrt n = (if (2 * q + 1) * (2 * q + 1) \<le> n then 2 * q + 1 else 2 * q)"
      using False by (subst isqrt.simps) (simp add: q_def Let_def)
    show ?thesis
    proof (cases "(2 * q + 1) * (2 * q + 1) \<le> n")
      case True
      with eq have "isqrt n = 2 * q + 1" by simp
      with True hi show ?thesis by (simp add: algebra_simps)
    next
      case False
      with eq have "isqrt n = 2 * q" by simp
      with False lo show ?thesis by (simp add: algebra_simps)
    qed
  qed
qed

lemma isqrt_unique:
  assumes "r * r \<le> n" "n < (r + 1) * (r + 1)"
  shows "isqrt n = r"
proof (rule ccontr)
  assume ne: "isqrt n \<noteq> r"
  let ?s = "isqrt n"
  from isqrt_sound [of n] have s: "?s * ?s \<le> n" "n < (?s + 1) * (?s + 1)" by simp_all
  from ne consider "?s < r" | "r < ?s" by arith
  then show False
  proof cases
    case 1
    then have "?s + 1 \<le> r" by simp
    then have "(?s + 1) * (?s + 1) \<le> r * r" by (intro mult_le_mono)
    with s assms show False by simp
  next
    case 2
    then have "r + 1 \<le> ?s" by simp
    then have "(r + 1) * (r + 1) \<le> ?s * ?s" by (intro mult_le_mono)
    with s assms show False by simp
  qed
qed

lemma isqrt_loud: "isqrt 1031951376 = 32124"
  by (rule isqrt_unique) simp_all

lemma sum_list_replicate_const: "sum_list (replicate n (x::int)) = int n * x"
  by (induction n) (simp_all add: algebra_simps)

lemma rms16_loud: "rms16 (map ulaw2linear16 loud_frame) = 32124"
proof -
  have "map (\<lambda>x. x * x) (map ulaw2linear16 loud_frame) = replicate 160 1031951376"
    by (simp add: loud_frame_def ulaw_zero)
  then have "sum_list (map (\<lambda>x. x * x) (map ulaw2linear16 loud_frame)) = 160 * 1031951376"
    by (simp add: sum_list_replicate_const)
  moreover have "map ulaw2linear16 loud_frame \<noteq> []" "length (map ulaw2linear16 loud_frame) = 160"
    by (simp_all add: loud_frame_def)
  ultimately show ?thesis
    by (simp add: rms16_def isqrt_loud)
qed

lemma loud_frame_is_voice: "\<not> is_silence audioop16 loud_frame 150"
  using rms16_loud by (simp add: is_silence_def audioop16_def) (simp add: loud_frame_def)

lemma audio_buffer_clear_playback [simp]:
  "audio_buffer (clear_audio_playback ws_send s) = audio_buffer s"
  by (simp add: clear_audio_playback_def Let_def)

lemma on_media_voice_buffer:
  "audio_chunk \<noteq> [] \<Longrightarrow> \<not> is_silence lib audio_chunk 150
     \<Longrightarrow> audio_buffer (on_media lib ws_send now audio_chunk s) = audio_buffer s @ audio_chunk"
  by (simp add: on_media_def Let_def)

lemma media_events_voice_buffer:
  "\<forall>ev \<in> set evs. snd ev \<noteq> [] \<and> \<not> is_silence lib (snd ev) 150
     \<Longrightarrow> audio_buffer (media_events lib ws_send evs s) = audio_buffer s @ concat (map snd evs)"
proof (induction evs arbitrary: s)
  case Nil
  then show ?case by simp
next
  case (Cons ev evs)
  obtain now audio_chunk where ev: "ev = (now, audio_chunk)" by (cases ev)
  from Cons.prems ev have v: "audio_chunk \<noteq> []" "\<not> is_silence lib audio_chunk 150" by auto
  from Cons.prems have rest: "\<forall>ev \<in> set evs. snd ev \<noteq> [] \<and> \<not> is_silence lib (snd ev) 150" by simp
  show ?case
    using Cons.IH [OF rest, of "on_media lib ws_send now audio_chunk s"] on_media_voice_buffer [OF v]
    by (simp add: ev)
qed

lemma length_concat_replicate: "length (concat (replicate n xs)) = n * length xs"
  by (induction n) simp_all

text \<open>
  C2.  The claim is that the utterance buffer never exceeds \<open>MAX_AUDIO_BUFFER\<close>.
  The handler appends every voiced frame and never compares the buffer with the
  maximum: after 501 loud frames in a row the buffer holds 80160 bytes.
\<close>

theorem buffer_exceeds_maximum:
  "length (audio_buffer (media_events audioop16 ws_send long_speech (new_session 0))) = 80160
   \<and> MAX_AUDIO_BUFFER < length (audio_buffer (media_events audioop16 ws_send long_speech (new_session 0)))"
proof -
  have voice: "\<forall>ev \<in> set long_speech. snd ev \<noteq> [] \<and> \<not> is_silence audioop16 (snd ev) 150"
    using loud_frame_is_voice by (auto simp: long_speech_def loud_frame_def simp del: upt_rec_numeral)
  have "map snd long_speech = replicate 501 loud_frame"
    by (simp add: long_speech_def comp_def map_replicate_const del: upt_rec_numeral)
  then have "length (concat (map snd long_speech)) = 80160"
    by (simp add: length_concat_replicate loud_frame_def)
  with media_events_voice_buffer [OF voice, of ws_send "new_session 0"]
  show ?thesis by (simp add: new_session_def MAX_AUDIO_BUFFER_def)
qed

section \<open>Properties of the transcription engine\<close>





lemma length_outcomes [simp]: "length (outcomes_in_order recognize audio sts c) = length sts"
  by (induction sts arbitrary: c) (simp_all add: Let_def split: prod.splits)












lemma strip_Nil [simp]: "strip [] = []"
  by (simp add: strip_def)
















section \<open>Properties of the volume normalisation\<close>












end
